theory Spec2Isabelle
  imports Complex_Main
begin

section \<open>Values crossing the wire\<close>

text \<open>
  The report items, the filter and the sort directives are opaque JSON (\<^verbatim>\<open>any\<close> in
  the source): the program never looks inside them.
\<close>

datatype json =
    JNull
  | JBool bool
  | JNum int
  | JStr string
  | JArr "json list"
  | JObj "(string \<times> json) list"

text \<open>
  \<^verbatim>\<open>PaginationInput\<close> of the generated schema bindings: \<^verbatim>\<open>{ page: Int, pageSize: Int }\<close>.
  GraphQL \<^verbatim>\<open>Int\<close> values are integers; they are modelled as \<^typ>\<open>int\<close>.
\<close>

record PaginationInput =
  page :: int
  pageSize :: int

text \<open>The \<^verbatim>\<open>variables\<close> object handed to \<^verbatim>\<open>client.query\<close> (index.ts, lines 86-91).
  An absent optional argument (\<^verbatim>\<open>undefined\<close>) is \<^const>\<open>None\<close>.\<close>

record variables =
  uuid :: string
  filter' :: "json option"
  pagination :: PaginationInput
  sorting :: "json list option"

text \<open>
  What reaches the transport for one query: the link's \<^verbatim>\<open>uri\<close>, the
  \<^verbatim>\<open>Authorization\<close> header added by the context link, and the variables.
\<close>

record request =
  req_uri :: "string option"
  req_authorization :: string
  req_variables :: variables

text \<open>\<^verbatim>\<open>ReportDataResponse["reportData"]\<close> (index.ts, lines 43-48). A field that the
  payload omits (or sends as \<^verbatim>\<open>null\<close>) is \<^const>\<open>None\<close>.\<close>

record reportData =
  rd_items :: "json list option"
  rd_totalItems :: "int option"

text \<open>The record returned by \<^verbatim>\<open>fetchReportDataPage\<close> and \<^verbatim>\<open>fetchReportData\<close>:
  \<^verbatim>\<open>{ items: any[]; totalItems: number }\<close>.\<close>

record page_result =
  items :: "json list"
  totalItems :: int

text \<open>The error a rejected query carries: a message and, for a protocol error, the
  server's list of GraphQL errors (each with a message and optional extensions).\<close>

datatype GraphQLError = GraphQLError (gql_message: string) (gql_extensions: "json option")

datatype error = Error (message: string) (graphQLErrors: "GraphQLError list option")

section \<open>JavaScript numbers, as far as the page count needs them\<close>

text \<open>
  \<^verbatim>\<open>Math.ceil(totalItems / pageSize)\<close> on two integers is an integer, or, when the
  divisor is zero, one of the three non-finite numbers.
\<close>

datatype number = Finite int | PosInfinity | NegInfinity | NaN

text \<open>
  \<^verbatim>\<open>Math.ceil(a / b)\<close> for integers \<open>a\<close>, \<open>b\<close>. For \<open>b \<noteq> 0\<close> it is the ceiling of the
  exact quotient (for operands below \<open>2^53\<close> in magnitude the rounding of the floating-point
  division cannot cross an integer); \<open>- ((- a) div b)\<close> is that ceiling, see
  \<open>Math_ceil_div_real\<close> below. For \<open>b = 0\<close> the quotient is \<^verbatim>\<open>NaN\<close>, \<^verbatim>\<open>Infinity\<close> or
  \<^verbatim>\<open>-Infinity\<close>, and \<^verbatim>\<open>Math.ceil\<close> returns it unchanged.
\<close>

definition Math_ceil_div :: "int \<Rightarrow> int \<Rightarrow> number" where
  "Math_ceil_div a b =
     (if b = 0 then (if a = 0 then NaN else if 0 < a then PosInfinity else NegInfinity)
      else Finite (- ((- a) div b)))"

text \<open>\<^verbatim>\<open>x > k\<close> for a number \<open>x\<close> and an integer \<open>k\<close>: every comparison with \<^verbatim>\<open>NaN\<close> is
  false.\<close>

fun number_gt :: "number \<Rightarrow> int \<Rightarrow> bool" where
  "number_gt (Finite n) k = (k < n)"
| "number_gt PosInfinity k = True"
| "number_gt NegInfinity k = False"
| "number_gt NaN k = False"

text \<open>\<^verbatim>\<open>k <= x\<close> for an integer \<open>k\<close> and a number \<open>x\<close>.\<close>

fun int_le_number :: "int \<Rightarrow> number \<Rightarrow> bool" where
  "int_le_number k (Finite n) = (k \<le> n)"
| "int_le_number k PosInfinity = True"
| "int_le_number k NegInfinity = False"
| "int_le_number k NaN = False"

text \<open>\<^verbatim>\<open>v || []\<close> on an array-typed field: only \<^verbatim>\<open>null\<close>/\<^verbatim>\<open>undefined\<close> is falsy (an empty
  array is truthy and is kept).\<close>

definition or_array :: "'a list option \<Rightarrow> 'a list \<Rightarrow> 'a list" where
  "or_array v d = (case v of None \<Rightarrow> d | Some xs \<Rightarrow> xs)"

text \<open>\<^verbatim>\<open>v || 0\<close> on an integer-typed field: \<^verbatim>\<open>null\<close>/\<^verbatim>\<open>undefined\<close> and \<open>0\<close> are falsy.\<close>

definition or_number :: "int option \<Rightarrow> int \<Rightarrow> int" where
  "or_number v d = (case v of None \<Rightarrow> d | Some n \<Rightarrow> if n = 0 then d else n)"

text \<open>\<^verbatim>\<open>v || ""\<close> on a string-or-undefined value: \<^verbatim>\<open>undefined\<close> and \<^verbatim>\<open>""\<close> are falsy.\<close>

definition or_string :: "string option \<Rightarrow> string \<Rightarrow> string" where
  "or_string v d = (case v of None \<Rightarrow> d | Some s \<Rightarrow> if s = [] then d else s)"

text \<open>Truthiness of a string-or-undefined value: \<^verbatim>\<open>undefined\<close> and \<^verbatim>\<open>""\<close> are falsy.\<close>

definition truthy :: "string option \<Rightarrow> bool" where
  "truthy v = (case v of None \<Rightarrow> False | Some s \<Rightarrow> s \<noteq> [])"

section \<open>Promises\<close>

text \<open>
  A query is sent when \<^verbatim>\<open>client.query\<close> is called and settles later. A promise is modelled
  by the time at which it settles and the outcome it settles with: \<open>Inl\<close> a rejection,
  \<open>Inr\<close> a fulfilment. All requests of the fan-out are sent in one synchronous loop, so the
  settle times give the completion order; promises that settle at the same time are
  ordered by their position.
\<close>

type_synonym 'a promise = "nat \<times> (error + 'a)"

text \<open>The rejection that happens first among a list of promises, if any.\<close>

fun first_rejection :: "'a promise list \<Rightarrow> (nat \<times> error) option" where
  "first_rejection [] = None"
| "first_rejection ((t, Inr v) # ps) = first_rejection ps"
| "first_rejection ((t, Inl e) # ps) =
     (case first_rejection ps of
        None \<Rightarrow> Some (t, e)
      | Some (t', e') \<Rightarrow> if t' < t then Some (t', e') else Some (t, e))"

text \<open>The values of the fulfilled promises, in the order of the list.\<close>

fun fulfilled :: "'a promise list \<Rightarrow> 'a list" where
  "fulfilled [] = []"
| "fulfilled ((t, Inr v) # ps) = v # fulfilled ps"
| "fulfilled ((t, Inl e) # ps) = fulfilled ps"

text \<open>
  \<^verbatim>\<open>await Promise.all(ps)\<close>: rejects with the first rejection; when every promise is
  fulfilled, yields their values in the order of \<open>ps\<close> (not in completion order).
\<close>

definition Promise_all :: "'a promise list \<Rightarrow> error + 'a list" where
  "Promise_all ps =
     (case first_rejection ps of
        Some (t, e) \<Rightarrow> Inl e
      | None \<Rightarrow> Inr (fulfilled ps))"

section \<open>The query executor\<close>

text \<open>The client built by \<^verbatim>\<open>createApolloClient\<close>: an HTTP link to \<^verbatim>\<open>API_URL\<close> behind a
  context link that sets the \<^verbatim>\<open>Authorization\<close> header.\<close>

record ApolloClient =
  uri :: "string option"
  authorization :: string

text \<open>A template literal renders \<^verbatim>\<open>undefined\<close> as the text \<^verbatim>\<open>undefined\<close>.\<close>

definition template :: "string option \<Rightarrow> string" where
  "template v = (case v of None \<Rightarrow> ''undefined'' | Some s \<Rightarrow> s)"

definition createApolloClient :: "string option \<Rightarrow> string option \<Rightarrow> ApolloClient" where
  "createApolloClient API_URL API_TOKEN =
     \<lparr>uri = API_URL, authorization = ''Static '' @ template API_TOKEN\<rparr>"

text \<open>
  The remote service and the network are parameters of the model: \<open>respond\<close> gives the
  outcome of a request (a rejection or the \<^verbatim>\<open>reportData\<close> payload of a successful
  response) and \<open>latency\<close> the time after which it settles.

  \<^verbatim>\<open>client.query\<close> with \<^verbatim>\<open>fetchPolicy: "no-cache"\<close> sends one request per call. The
  state threaded through the program is the list of requests sent so far.
\<close>

definition client_query ::
  "(request \<Rightarrow> error + reportData) \<Rightarrow> (request \<Rightarrow> nat) \<Rightarrow> ApolloClient \<Rightarrow> variables \<Rightarrow>
   request list \<Rightarrow> reportData promise \<times> request list" where
  "client_query respond latency client vars sent =
     (let rq = \<lparr>req_uri = uri client, req_authorization = authorization client,
                req_variables = vars\<rparr>
      in ((latency rq, respond rq), sent @ [rq]))"

text \<open>\<^verbatim>\<open>fetchReportDataPage\<close> (index.ts, lines 77-102). The call sends the request at once;
  the promise it returns settles when the query does, rejected with the query's error or
  fulfilled with the normalised record.\<close>

definition fetchReportDataPage ::
  "(request \<Rightarrow> error + reportData) \<Rightarrow> (request \<Rightarrow> nat) \<Rightarrow> ApolloClient \<Rightarrow> string \<Rightarrow>
   json option \<Rightarrow> PaginationInput \<Rightarrow> json list option \<Rightarrow>
   request list \<Rightarrow> page_result promise \<times> request list" where
  "fetchReportDataPage respond latency client uuid_p filter_p pagination_p sorting_p sent =
     (let (result, sent') =
            client_query respond latency client
              \<lparr>uuid = uuid_p, filter' = filter_p, pagination = pagination_p, sorting = sorting_p\<rparr> sent
      in ((fst result,
           case snd result of
             Inl e \<Rightarrow> Inl e
           | Inr data \<Rightarrow>
               Inr \<lparr>items = or_array (rd_items data) [],
                    totalItems = or_number (rd_totalItems data) 0\<rparr>),
          sent'))"

section \<open>The pagination aggregator\<close>

text \<open>
  The loop of index.ts, lines 132-142:
  \<^verbatim>\<open>for (let page = 2; page <= totalPages; page++) pagePromises.push(fetchReportDataPage(...))\<close>.
  The state is the list of promises pushed so far and the list of requests sent. The loop is not
  bounded when \<open>totalPages\<close> is \<^verbatim>\<open>Infinity\<close>; \<^const>\<open>None\<close> is the loop that never exits
  (memory is taken to be unbounded: an engine ends such a fan-out only by running out of
  resources, never by returning).
\<close>

partial_function (option) page_loop ::
  "(request \<Rightarrow> error + reportData) \<Rightarrow> (request \<Rightarrow> nat) \<Rightarrow> ApolloClient \<Rightarrow> string \<Rightarrow>
   json option \<Rightarrow> int \<Rightarrow> json list option \<Rightarrow> number \<Rightarrow> int \<Rightarrow>
   page_result promise list \<times> request list \<Rightarrow>
   (page_result promise list \<times> request list) option" where
  "page_loop respond latency client uuid_p filter_p pageSize_p sorting_p totalPages page_p st =
     (if int_le_number page_p totalPages then
        page_loop respond latency client uuid_p filter_p pageSize_p sorting_p totalPages (page_p + 1)
          (fst st @
             [fst (fetchReportDataPage respond latency client uuid_p filter_p
                     \<lparr>page = page_p, pageSize = pageSize_p\<rparr> sorting_p (snd st))],
           snd (fetchReportDataPage respond latency client uuid_p filter_p
                  \<lparr>page = page_p, pageSize = pageSize_p\<rparr> sorting_p (snd st)))
      else Some st)"

declare page_loop.simps [code]

text \<open>
  \<^verbatim>\<open>fetchReportData\<close> (index.ts, lines 107-154). The result is \<^const>\<open>None\<close> when the call
  never returns, and otherwise the outcome of the returned promise (\<open>Inl\<close> the error it
  rejects with, \<open>Inr\<close> the aggregated record) together with the requests sent.
\<close>

definition fetchReportData ::
  "(request \<Rightarrow> error + reportData) \<Rightarrow> (request \<Rightarrow> nat) \<Rightarrow> ApolloClient \<Rightarrow> string \<Rightarrow>
   json option \<Rightarrow> int \<Rightarrow> json list option \<Rightarrow>
   request list \<Rightarrow> ((error + page_result) \<times> request list) option" where
  "fetchReportData respond latency client uuid_p filter_p pageSize_p sorting_p sent =
     (let (first, sent1) =
            fetchReportDataPage respond latency client uuid_p filter_p
              \<lparr>page = 1, pageSize = pageSize_p\<rparr> sorting_p sent
      in case snd first of
           Inl e \<Rightarrow> Some (Inl e, sent1)
         | Inr firstPage \<Rightarrow>
             (let totalItems_p = totalItems firstPage;
                  allItems = items firstPage;
                  totalPages = Math_ceil_div totalItems_p pageSize_p
              in if number_gt totalPages 1 then
                   (case page_loop respond latency client uuid_p filter_p pageSize_p sorting_p
                           totalPages 2 ([], sent1) of
                      None \<Rightarrow> None
                    | Some (pagePromises, sent2) \<Rightarrow>
                        (case Promise_all pagePromises of
                           Inl e \<Rightarrow> Some (Inl e, sent2)
                         | Inr remainingPages \<Rightarrow>
                             Some (Inr \<lparr>items = foldl (\<lambda>acc p. acc @ items p) allItems
                                                   remainingPages,
                                        totalItems = totalItems_p\<rparr>,
                                   sent2)))
                 else Some (Inr \<lparr>items = allItems, totalItems = totalItems_p\<rparr>, sent1)))"

section \<open>The program\<close>

text \<open>The three environment variables read at start-up (index.ts, lines 13-15), after
  \<^verbatim>\<open>dotenv\<close> has merged a local \<^verbatim>\<open>.env\<close> file into the environment. An unset variable
  is \<^const>\<open>None\<close>.\<close>

record env =
  COSTLOCKER_API_URL :: "string option"
  COSTLOCKER_API_TOKEN :: "string option"
  REPORT_UUID :: "string option"

text \<open>
  A line written to the console. Fixed text is kept as text; a line that renders data
  keeps the data, so that the serialisation of numbers and JSON is not part of the model.
\<close>

datatype line =
    Text string
  | UuidLine string  \<comment> \<open>\<^verbatim>\<open>Fetching report data for UUID: ${reportUuid}...\<close>\<close>
  | ItemsJson "json list"  \<comment> \<open>\<^verbatim>\<open>JSON.stringify(result.items, null, 2)\<close>\<close>
  | TotalItemsLine int  \<comment> \<open>\<^verbatim>\<open>Total items: ${result.totalItems}\<close>\<close>
  | ItemsReturnedLine nat  \<comment> \<open>\<^verbatim>\<open>Items returned: ${result.items.length}\<close>\<close>
  | FatalErrorLine string  \<comment> \<open>\<^verbatim>\<open>Fatal error:\<close> and the error's message\<close>
  | GraphQLErrorLine nat string  \<comment> \<open>\<^verbatim>\<open>GraphQL Error [${index + 1}]: ${gqlError.message}\<close>\<close>
  | ExtensionsLine json  \<comment> \<open>\<^verbatim>\<open>Extensions: ${JSON.stringify(gqlError.extensions)}\<close>\<close>

text \<open>What a run of the process leaves behind: the requests it sent, what it wrote to
  standard output and to standard error, and its exit code.\<close>

record process =
  requests :: "request list"
  stdout :: "line list"
  stderr :: "line list"
  exit_code :: int

text \<open>The lines the \<^verbatim>\<open>catch\<close> block writes for the GraphQL errors of an error
  (index.ts, lines 183-192).\<close>

definition graphQLError_lines :: "GraphQLError list \<Rightarrow> line list" where
  "graphQLError_lines gs =
     concat (map (\<lambda>(index, gqlError).
                    GraphQLErrorLine (index + 1) (gql_message gqlError) #
                    (case gql_extensions gqlError of
                       None \<Rightarrow> []
                     | Some x \<Rightarrow> [ExtensionsLine x]))
                 (enumerate 0 gs))"

text \<open>\<^verbatim>\<open>main\<close> (index.ts, lines 159-195). \<^verbatim>\<open>fetchReportData\<close> is called with the report's
  uuid only: no filter, the default page size 100, no sorting.\<close>

definition main ::
  "(request \<Rightarrow> error + reportData) \<Rightarrow> (request \<Rightarrow> nat) \<Rightarrow>
   string option \<Rightarrow> string option \<Rightarrow> string option \<Rightarrow> process option" where
  "main respond latency API_URL API_TOKEN REPORT_UUID_v =
     (let out0 = [Text (''Fetching report data...'' @ [CHR 0x0A])];
          client = createApolloClient API_URL API_TOKEN;
          reportUuid = or_string REPORT_UUID_v []
      in if reportUuid = [] then
           Some \<lparr>requests = [], stdout = out0,
                 stderr = [Text ''Error: REPORT_UUID environment variable is required''],
                 exit_code = 1\<rparr>
         else
           (let out1 = out0 @ [UuidLine reportUuid]
            in case fetchReportData respond latency client reportUuid None 100 None [] of
                 None \<Rightarrow> None
               | Some (Inr result, sent) \<Rightarrow>
                   Some \<lparr>requests = sent,
                         stdout = out1 @
                           [Text (CHR 0x0A # ''=== Report Data ===''),
                            ItemsJson (items result),
                            TotalItemsLine (totalItems result),
                            ItemsReturnedLine (length (items result)),
                            Text (CHR 0x0A # ''=== Items ==='')],
                         stderr = [],
                         exit_code = 0\<rparr>
               | Some (Inl error, sent) \<Rightarrow>
                   Some \<lparr>requests = sent, stdout = out1,
                         stderr = FatalErrorLine (message error) #
                           (case graphQLErrors error of
                              None \<Rightarrow> []
                            | Some gs \<Rightarrow> graphQLError_lines gs),
                         exit_code = 1\<rparr>))"

text \<open>The whole script: the start-up check of the token (index.ts, lines 17-21), which
  ends the process before \<^verbatim>\<open>main\<close> is reached, and then \<^verbatim>\<open>main\<close>.\<close>

definition program ::
  "env \<Rightarrow> (request \<Rightarrow> error + reportData) \<Rightarrow> (request \<Rightarrow> nat) \<Rightarrow> process option" where
  "program e respond latency =
     (let API_URL = COSTLOCKER_API_URL e;
          API_TOKEN = COSTLOCKER_API_TOKEN e;
          REPORT_UUID_v = REPORT_UUID e
      in if \<not> truthy API_TOKEN then
           Some \<lparr>requests = [], stdout = [],
                 stderr = [Text ''Error: COSTLOCKER_API_TOKEN environment variable is required'',
                           Text ''Please create a .env file based on .env.example''],
                 exit_code = 1\<rparr>
         else main respond latency API_URL API_TOKEN REPORT_UUID_v)"

section \<open>Notions used to state the properties\<close>

text \<open>The request that \<^verbatim>\<open>fetchReportData\<close> sends for page \<open>p\<close>: the variables of
  index.ts, lines 86-91, with \<^verbatim>\<open>pagination = { page: p, pageSize }\<close>.\<close>

definition page_request ::
  "ApolloClient \<Rightarrow> string \<Rightarrow> json option \<Rightarrow> int \<Rightarrow> json list option \<Rightarrow> int \<Rightarrow> request" where
  "page_request client uuid_p filter_p pageSize_p sorting_p p =
     \<lparr>req_uri = uri client, req_authorization = authorization client,
      req_variables = \<lparr>uuid = uuid_p, filter' = filter_p,
                       pagination = \<lparr>page = p, pageSize = pageSize_p\<rparr>,
                       sorting = sorting_p\<rparr>\<rparr>"

text \<open>The promise that \<^verbatim>\<open>fetchReportDataPage\<close> returns for page \<open>p\<close> (it does not depend on
  the requests sent before).\<close>

definition page_promise ::
  "(request \<Rightarrow> error + reportData) \<Rightarrow> (request \<Rightarrow> nat) \<Rightarrow> ApolloClient \<Rightarrow> string \<Rightarrow>
   json option \<Rightarrow> int \<Rightarrow> json list option \<Rightarrow> int \<Rightarrow> page_result promise" where
  "page_promise respond latency client uuid_p filter_p pageSize_p sorting_p p =
     fst (fetchReportDataPage respond latency client uuid_p filter_p
            \<lparr>page = p, pageSize = pageSize_p\<rparr> sorting_p [])"

text \<open>The page number a request carries.\<close>

definition page_of :: "request \<Rightarrow> int" where
  "page_of rq = page (pagination (req_variables rq))"

text \<open>The items a response carries after normalisation; a failed request carries none.\<close>

definition items_of :: "error + reportData \<Rightarrow> json list" where
  "items_of r = (case r of Inl e \<Rightarrow> [] | Inr d \<Rightarrow> or_array (rd_items d) [])"

text \<open>The item count a response reports after normalisation.\<close>

definition totalItems_of :: "error + reportData \<Rightarrow> int" where
  "totalItems_of r = (case r of Inl e \<Rightarrow> 0 | Inr d \<Rightarrow> or_number (rd_totalItems d) 0)"

section \<open>Example services\<close>

text \<open>Concrete clients, services and networks on which the theorems below are exercised.\<close>

definition example_client :: ApolloClient where
  "example_client = createApolloClient (Some ''https://api.example.test/graphql'') (Some ''secret'')"

text \<open>A report of 250 items; page \<open>p\<close> carries the single item \<open>p\<close>.\<close>

definition report_250 :: "request \<Rightarrow> error + reportData" where
  "report_250 rq = Inr \<lparr>rd_items = Some [JNum (page_of rq)], rd_totalItems = Some 250\<rparr>"

text \<open>A network on which every response arrives at once, and one on which later pages
  arrive first.\<close>

definition instant :: "request \<Rightarrow> nat" where
  "instant rq = 0"

definition last_page_first :: "request \<Rightarrow> nat" where
  "last_page_first rq = nat (10 - page_of rq)"


text \<open>A service whose first page carries an item although it reports a total of zero.\<close>

definition stale_total :: "request \<Rightarrow> error + reportData" where
  "stale_total rq = Inr \<lparr>rd_items = Some [JStr ''row''], rd_totalItems = Some 0\<rparr>"

text \<open>A service whose payload has neither field.\<close>

definition bare_payload :: "request \<Rightarrow> error + reportData" where
  "bare_payload rq = Inr \<lparr>rd_items = None, rd_totalItems = None\<rparr>"

text \<open>A service with a single page of two items that reports a negative total.\<close>

definition negative_total :: "request \<Rightarrow> error + reportData" where
  "negative_total rq = Inr \<lparr>rd_items = Some [JStr ''a'', JStr ''b''], rd_totalItems = Some (- 5)\<rparr>"

text \<open>The report of 250 items when the pages after the first report other totals.\<close>

definition drifting_total :: "request \<Rightarrow> error + reportData" where
  "drifting_total rq =
     (if page_of rq = 1 then report_250 rq
      else Inr \<lparr>rd_items = Some [JNum (page_of rq)], rd_totalItems = Some (1000 * page_of rq)\<rparr>)"

text \<open>A transport that rejects a request without a \<^verbatim>\<open>uri\<close> and otherwise answers with an
  empty report.\<close>

definition refuses_missing_uri :: "request \<Rightarrow> error + reportData" where
  "refuses_missing_uri rq =
     (case req_uri rq of
        None \<Rightarrow> Inl (Error ''Only absolute URLs are supported'' None)
      | Some url \<Rightarrow> Inr \<lparr>rd_items = Some [], rd_totalItems = Some 0\<rparr>)"

text \<open>Environments: one without \<^verbatim>\<open>COSTLOCKER_API_URL\<close>, one without
  \<^verbatim>\<open>COSTLOCKER_API_TOKEN\<close>, one with an empty \<^verbatim>\<open>REPORT_UUID\<close>.\<close>

definition env_without_url :: env where
  "env_without_url =
     \<lparr>COSTLOCKER_API_URL = None, COSTLOCKER_API_TOKEN = Some ''secret'',
      REPORT_UUID = Some ''r1''\<rparr>"

definition env_without_token :: env where
  "env_without_token =
     \<lparr>COSTLOCKER_API_URL = Some ''https://api.example.test/graphql'',
      COSTLOCKER_API_TOKEN = None, REPORT_UUID = Some ''r1''\<rparr>"

definition env_empty_uuid :: env where
  "env_empty_uuid =
     \<lparr>COSTLOCKER_API_URL = Some ''https://api.example.test/graphql'',
      COSTLOCKER_API_TOKEN = Some ''secret'', REPORT_UUID = Some []\<rparr>"

section \<open>Auxiliary facts\<close>

lemma Math_ceil_div_real:
  "b \<noteq> 0 \<Longrightarrow> Math_ceil_div a b = Finite \<lceil>real_of_int a / real_of_int b\<rceil>"
proof -
  assume "b \<noteq> 0"
  have "\<lceil>real_of_int a / real_of_int b\<rceil> = - \<lfloor>real_of_int (- a) / real_of_int b\<rfloor>"
    by (simp add: ceiling_def)
  also have "\<dots> = - ((- a) div b)"
    by (simp only: floor_divide_of_int_eq)
  finally show ?thesis using \<open>b \<noteq> 0\<close> by (simp add: Math_ceil_div_def)
qed

lemma fetchReportDataPage_eq:
  "fetchReportDataPage respond latency client u f \<lparr>page = p, pageSize = ps\<rparr> s sent =
     (page_promise respond latency client u f ps s p,
      sent @ [page_request client u f ps s p])"
  by (simp add: fetchReportDataPage_def client_query_def page_request_def page_promise_def Let_def)

lemma page_promise_eq:
  "page_promise respond latency client u f ps s p =
     (latency (page_request client u f ps s p),
      case respond (page_request client u f ps s p) of
        Inl e \<Rightarrow> Inl e
      | Inr d \<Rightarrow> Inr \<lparr>items = items_of (Inr d), totalItems = totalItems_of (Inr d)\<rparr>)"
  by (simp add: fetchReportDataPage_def client_query_def page_request_def page_promise_def Let_def
      items_of_def totalItems_of_def split: sum.splits)

lemma page_loop_Finite:
  "page_loop R L c u f ps s (Finite n) p (pps, sent) =
     Some (pps @ map (page_promise R L c u f ps s) [p..n],
           sent @ map (page_request c u f ps s) [p..n])"
proof (induction "nat (n + 1 - p)" arbitrary: p pps sent)
  case 0
  then have "\<not> p \<le> n" by simp
  then show ?case by (subst page_loop.simps) simp
next
  case (Suc k)
  then have le: "p \<le> n" and k: "k = nat (n + 1 - (p + 1))" by simp_all
  show ?case
    by (subst page_loop.simps) (simp add: le fetchReportDataPage_eq Suc.hyps(1) [OF k] upto_rec1 [OF le])
qed

lemma page_loop_Some_not_PosInfinity:
  "page_loop R L c u f ps s tp p st = Some y \<Longrightarrow> tp \<noteq> PosInfinity"
  by (rule page_loop.raw_induct [where P = "\<lambda>R L c u f ps s tp p st y. tp \<noteq> PosInfinity"])
    (auto split: if_splits)

lemma page_loop_PosInfinity: "page_loop R L c u f ps s PosInfinity p st = None"
  using page_loop_Some_not_PosInfinity by (cases "page_loop R L c u f ps s PosInfinity p st") blast+


lemma foldl_append_items:
  "foldl (\<lambda>acc p. acc @ items p) a pages = a @ concat (map items pages)"
  by (induction pages arbitrary: a) simp_all

lemma first_rejection_None_iff:
  "first_rejection ps = None \<longleftrightarrow> (\<forall>p \<in> set ps. \<not> isl (snd p))"
  by (induction ps rule: first_rejection.induct) (auto split: option.splits)


lemma fulfilled_all:
  "\<forall>p \<in> set ps. \<not> isl (snd p) \<Longrightarrow> fulfilled ps = map (\<lambda>p. projr (snd p)) ps"
  by (induction ps rule: fulfilled.induct) auto

lemma Promise_all_fulfilled:
  "\<forall>p \<in> set ps. \<not> isl (snd p) \<Longrightarrow> Promise_all ps = Inr (map (\<lambda>p. projr (snd p)) ps)"
  using first_rejection_None_iff [of ps] by (simp add: Promise_all_def fulfilled_all)


lemma upto_from_1: "[1..max 1 n] = 1 # [2..n]"
  by (cases "2 \<le> n") (simp_all add: upto_rec1 max_def)

lemma fetchReportData_first_rejected:
  assumes "R (page_request c u f ps s 1) = Inl e"
  shows "fetchReportData R L c u f ps s sent = Some (Inl e, sent @ [page_request c u f ps s 1])"
  using assms by (simp add: fetchReportData_def fetchReportDataPage_eq page_promise_eq)

lemma fetchReportData_Finite:
  assumes "R (page_request c u f ps s 1) = Inr d" and "Math_ceil_div (totalItems_of (Inr d)) ps = Finite n"
  shows "fetchReportData R L c u f ps s sent =
           (case Promise_all (map (page_promise R L c u f ps s) [2..n]) of
              Inl e \<Rightarrow> Some (Inl e, sent @ map (page_request c u f ps s) [1..max 1 n])
            | Inr pages \<Rightarrow>
                Some (Inr \<lparr>items = items_of (Inr d) @ concat (map items pages),
                           totalItems = totalItems_of (Inr d)\<rparr>,
                      sent @ map (page_request c u f ps s) [1..max 1 n]))"
proof (cases "1 < n")
  case True
  then have "[1..n] = 1 # [2..n]" by (simp add: upto_rec1)
  with assms True show ?thesis
    by (simp add: fetchReportData_def fetchReportDataPage_eq page_promise_eq [of R L c u f ps s 1]
        page_loop_Finite foldl_append_items Let_def split: sum.splits)
next
  case False
  then have "[2..n] = []" by simp
  with assms False show ?thesis
    by (simp add: fetchReportData_def fetchReportDataPage_eq page_promise_eq [of R L c u f ps s 1]
        upto_from_1 Promise_all_def Let_def)
qed

lemma fetchReportData_not_Finite:
  assumes "R (page_request c u f ps s 1) = Inr d"
  shows "Math_ceil_div (totalItems_of (Inr d)) ps = PosInfinity \<Longrightarrow>
           fetchReportData R L c u f ps s sent = None"
    and "Math_ceil_div (totalItems_of (Inr d)) ps = NegInfinity \<or>
         Math_ceil_div (totalItems_of (Inr d)) ps = NaN \<Longrightarrow>
           fetchReportData R L c u f ps s sent =
             Some (Inr \<lparr>items = items_of (Inr d), totalItems = totalItems_of (Inr d)\<rparr>,
                   sent @ [page_request c u f ps s 1])"
  using assms
  by (auto simp add: fetchReportData_def fetchReportDataPage_eq page_promise_eq [of R L c u f ps s 1]
        page_loop_PosInfinity Let_def)

lemma page_of_page_request: "page_of (page_request c u f ps s p) = p"
  by (simp add: page_of_def page_request_def)

lemma map_page_of_page_request: "map page_of (map (page_request c u f ps s) xs) = xs"
  by (simp add: page_of_page_request comp_def)

lemma filter_first_page:
  "1 \<le> n \<Longrightarrow> length (filter (\<lambda>rq. page_of rq = 1) (map (page_request c u f ps s) [1..n])) = 1"
proof -
  assume "1 \<le> n"
  then have "[1..n] = 1 # [2..n]" by (simp add: upto_rec1)
  moreover have "filter (\<lambda>p. p = 1) [2..n] = []" by (auto simp: filter_empty_conv)
  ultimately show ?thesis by (simp add: filter_map comp_def page_of_page_request)
qed

lemma snd_page_promise_isl:
  "isl (snd (page_promise R L c u f ps s p)) = isl (R (page_request c u f ps s p))"
  by (simp add: page_promise_eq split: sum.splits)

lemma items_page_promise:
  "\<not> isl (R (page_request c u f ps s p)) \<Longrightarrow>
     items (projr (snd (page_promise R L c u f ps s p))) = items_of (R (page_request c u f ps s p))"
  by (cases "R (page_request c u f ps s p)") (simp_all add: page_promise_eq)

lemma Promise_all_pages_fulfilled:
  assumes "\<forall>p \<in> set pages. \<not> isl (R (page_request c u f ps s p))"
  shows "\<exists>rs. Promise_all (map (page_promise R L c u f ps s) pages) = Inr rs \<and>
           map items rs = map (\<lambda>p. items_of (R (page_request c u f ps s p))) pages"
proof -
  have "\<forall>p \<in> set (map (page_promise R L c u f ps s) pages). \<not> isl (snd p)"
    using assms by (simp add: snd_page_promise_isl)
  from Promise_all_fulfilled [OF this] assms show ?thesis
    by (simp add: items_page_promise comp_def)
qed


lemma first_rejection_map_values:
  "first_rejection (map (apsnd (map_sum id g)) ps) = first_rejection ps"
  by (induction ps rule: first_rejection.induct) simp_all

lemma fulfilled_map_values:
  "fulfilled (map (apsnd (map_sum id g)) ps) = map g (fulfilled ps)"
  by (induction ps rule: fulfilled.induct) simp_all

lemma Promise_all_map_values:
  "Promise_all (map (apsnd (map_sum id g)) ps) = map_sum id (map g) (Promise_all ps)"
  by (simp add: Promise_all_def first_rejection_map_values fulfilled_map_values
      split: option.splits)

lemma page_promise_items_cong:
  assumes "R' rq = R rq \<or> (\<exists>d d'. R rq = Inr d \<and> R' rq = Inr d' \<and> rd_items d' = rd_items d)"
    and "rq = page_request c u f ps s p"
  shows "apsnd (map_sum id items) (page_promise R' L c u f ps s p) =
         apsnd (map_sum id items) (page_promise R L c u f ps s p)"
  using assms by (auto simp: page_promise_eq items_of_def)

lemma main_empty_uuid:
  "\<not> truthy v \<Longrightarrow>
     main R L url tok v =
       Some \<lparr>requests = [], stdout = [Text (''Fetching report data...'' @ [CHR 0x0A])],
             stderr = [Text ''Error: REPORT_UUID environment variable is required''],
             exit_code = 1\<rparr>"
  by (auto simp: main_def truthy_def or_string_def Let_def split: option.splits)

section \<open>Properties of the pagination aggregator\<close>

text \<open>
  C1. For every page size \<open>ps \<ge> 1\<close> and every item count \<open>T \<ge> 0\<close> reported by the first
  page, \<^verbatim>\<open>fetchReportData\<close> returns having sent exactly \<open>max 1 \<lceil>T / ps\<rceil>\<close> requests: they
  carry the pages \<open>1, 2, \<dots>, \<lceil>T / ps\<rceil>\<close> in this order, and exactly one of them carries
  page 1. (For 250 items and a page size of 100 these are the pages 1, 2, 3: see the
  instance that follows.)
\<close>

theorem fetchReportData_request_count:
  assumes "1 \<le> ps"
    and "R (page_request c u f ps s 1) = Inr d"
    and "0 \<le> totalItems_of (Inr d)"
  shows "\<exists>res issued.
           fetchReportData R L c u f ps s sent = Some (res, sent @ issued) \<and>
           int (length issued) = max 1 \<lceil>real_of_int (totalItems_of (Inr d)) / real_of_int ps\<rceil> \<and>
           map page_of issued =
             [1..max 1 \<lceil>real_of_int (totalItems_of (Inr d)) / real_of_int ps\<rceil>] \<and>
           length (filter (\<lambda>rq. page_of rq = 1) issued) = 1"
proof -
  define n where "n = \<lceil>real_of_int (totalItems_of (Inr d)) / real_of_int ps\<rceil>"
  define issued where "issued = map (page_request c u f ps s) [1..max 1 n]"
  from assms(1) have fin: "Math_ceil_div (totalItems_of (Inr d)) ps = Finite n"
    unfolding n_def by (intro Math_ceil_div_real) simp
  have "\<exists>res. fetchReportData R L c u f ps s sent = Some (res, sent @ issued)"
    unfolding issued_def
    using fetchReportData_Finite [where R = R and L = L and sent = sent, OF assms(2) fin]
    by (simp split: sum.splits)
  moreover have "int (length issued) = max 1 n"
    by (simp add: issued_def)
  moreover have "map page_of issued = [1..max 1 n]"
    by (simp add: issued_def map_page_of_page_request del: map_map)
  moreover have "length (filter (\<lambda>rq. page_of rq = 1) issued) = 1"
    unfolding issued_def by (rule filter_first_page) simp
  ultimately show ?thesis unfolding n_def by blast
qed

text \<open>The instance of the example: 250 items, page size 100, three requests for the pages
  1, 2, 3.\<close>

theorem fetchReportData_request_count_witness:
  "\<exists>res issued.
     fetchReportData report_250 instant example_client ''r1'' None 100 None [] = Some (res, issued) \<and>
     length issued = 3 \<and> map page_of issued = [1, 2, 3] \<and>
     length (filter (\<lambda>rq. page_of rq = 1) issued) = 1"
proof -
  have r: "report_250 (page_request example_client ''r1'' None 100 None 1) =
             Inr \<lparr>rd_items = Some [JNum 1], rd_totalItems = Some 250\<rparr>"
    by (simp add: report_250_def page_of_page_request)
  have t: "totalItems_of (Inr \<lparr>rd_items = Some [JNum 1], rd_totalItems = Some 250\<rparr>) = 250"
    by (simp add: totalItems_of_def or_number_def)
  have c: "\<lceil>real_of_int 250 / real_of_int 100\<rceil> = 3" by simp
  have u: "[1..3::int] = [1, 2, 3]" by (simp add: upto_rec1)
  from fetchReportData_request_count [of 100 report_250 example_client "''r1''" None None
      "\<lparr>rd_items = Some [JNum 1], rd_totalItems = Some 250\<rparr>" instant "[]", OF _ r]
  show ?thesis by (simp add: t c u)
qed

text \<open>
  C2. When every page request succeeds, the items returned are the items of page 1, then
  those of page 2, and so on up to the last page, in ascending page order. The network's
  completion order (\<open>L\<close>, the time at which each request settles) is arbitrary and does
  not occur in the result.
\<close>

theorem fetchReportData_page_order:
  assumes "ps \<noteq> 0"
    and "R (page_request c u f ps s 1) = Inr d"
    and "n = \<lceil>real_of_int (totalItems_of (Inr d)) / real_of_int ps\<rceil>"
    and "\<forall>p \<in> {2..n}. \<not> isl (R (page_request c u f ps s p))"
  shows "fetchReportData R L c u f ps s sent =
           Some (Inr \<lparr>items = concat (map (\<lambda>p. items_of (R (page_request c u f ps s p))) [1..max 1 n]),
                      totalItems = totalItems_of (Inr d)\<rparr>,
                 sent @ map (page_request c u f ps s) [1..max 1 n])"
proof -
  from assms(1,3) have fin: "Math_ceil_div (totalItems_of (Inr d)) ps = Finite n"
    by (simp add: Math_ceil_div_real)
  from assms(4) have "\<forall>p \<in> set [2..n]. \<not> isl (R (page_request c u f ps s p))" by simp
  from Promise_all_pages_fulfilled [OF this, of L]
  obtain rs where rs: "Promise_all (map (page_promise R L c u f ps s) [2..n]) = Inr rs"
    "map items rs = map (\<lambda>p. items_of (R (page_request c u f ps s p))) [2..n]" by blast
  show ?thesis
    using fetchReportData_Finite [where R = R and L = L and sent = sent, OF assms(2) fin]
    by (simp add: rs upto_from_1 assms(2))
qed

text \<open>
  An instance in which the responses arrive in the order 3, 2, 1.
\<close>

theorem fetchReportData_page_order_witness:
  "fetchReportData report_250 last_page_first example_client ''r1'' None 100 None [] =
     Some (Inr \<lparr>items = [JNum 1, JNum 2, JNum 3], totalItems = 250\<rparr>,
           map (page_request example_client ''r1'' None 100 None) [1, 2, 3])"
proof -
  have r: "report_250 (page_request example_client ''r1'' None 100 None 1) =
             Inr \<lparr>rd_items = Some [JNum 1], rd_totalItems = Some 250\<rparr>"
    by (simp add: report_250_def page_of_page_request)
  have t: "totalItems_of (Inr \<lparr>rd_items = Some [JNum 1], rd_totalItems = Some 250\<rparr>) = 250"
    by (simp add: totalItems_of_def or_number_def)
  have n: "3 = \<lceil>real_of_int (totalItems_of (Inr \<lparr>rd_items = Some [JNum 1], rd_totalItems = Some 250\<rparr>))
                 / real_of_int 100\<rceil>"
    by (simp add: t)
  have ok: "\<forall>p \<in> {2..3}. \<not> isl (report_250 (page_request example_client ''r1'' None 100 None p))"
    by (simp add: report_250_def)
  have u: "[1..3::int] = [1, 2, 3]" by (simp add: upto_rec1)
  from fetchReportData_page_order [of 100 report_250 example_client "''r1''" None None
      "\<lparr>rd_items = Some [JNum 1], rd_totalItems = Some 250\<rparr>" 3 last_page_first "[]", OF _ r n ok]
  show ?thesis
    by (simp add: t u items_of_def or_array_def report_250_def page_of_page_request)
qed



text \<open>
  C4 (as amended). When the first page reports a total of 0, \<^verbatim>\<open>fetchReportData\<close> sends
  exactly one request and returns the items of that page unchanged: the empty sequence
  whenever the page carries no items.
\<close>

theorem fetchReportData_zero_total:
  assumes "R (page_request c u f ps s 1) = Inr d"
    and "totalItems_of (Inr d) = 0"
  shows "fetchReportData R L c u f ps s sent =
           Some (Inr \<lparr>items = or_array (rd_items d) [], totalItems = 0\<rparr>,
                 sent @ [page_request c u f ps s 1])"
proof (cases "ps = 0")
  case True
  with assms(2) have "Math_ceil_div (totalItems_of (Inr d)) ps = NegInfinity \<or>
                      Math_ceil_div (totalItems_of (Inr d)) ps = NaN"
    by (simp add: Math_ceil_div_def)
  from fetchReportData_not_Finite(2) [where R = R and L = L and sent = sent, OF assms(1) this]
  show ?thesis by (simp add: assms(2) items_of_def)
next
  case False
  with assms(2) have fin: "Math_ceil_div (totalItems_of (Inr d)) ps = Finite 0"
    by (simp add: Math_ceil_div_def)
  from fetchReportData_Finite [where R = R and L = L and sent = sent, OF assms(1) fin]
  show ?thesis by (simp add: Promise_all_def assms(2) items_of_def)
qed

text \<open>
  An instance: a payload without items and without a total.
\<close>

theorem fetchReportData_zero_total_witness:
  "fetchReportData bare_payload instant example_client ''r1'' None 100 None [] =
     Some (Inr \<lparr>items = [], totalItems = 0\<rparr>,
           [page_request example_client ''r1'' None 100 None 1])"
proof -
  have r: "bare_payload (page_request example_client ''r1'' None 100 None 1) =
             Inr \<lparr>rd_items = None, rd_totalItems = None\<rparr>"
    by (simp add: bare_payload_def)
  from fetchReportData_zero_total [of bare_payload example_client "''r1''" None 100 None _
      instant "[]", OF r]
  show ?thesis by (simp add: totalItems_of_def or_number_def or_array_def)
qed

text \<open>
  C4 as stated fails: a first page that reports a total of 0 and yet carries an item
  is returned with that item.
\<close>

theorem fetchReportData_zero_total_counterexample:
  "totalItems_of (stale_total (page_request example_client ''r1'' None 100 None 1)) = 0 \<and>
   fetchReportData stale_total instant example_client ''r1'' None 100 None [] =
     Some (Inr \<lparr>items = [JStr ''row''], totalItems = 0\<rparr>,
           [page_request example_client ''r1'' None 100 None 1])"
  by code_simp

text \<open>
  C7. The total returned is the total of the first page. Replacing the totals reported by
  the other pages (\<open>R'\<close> differs from \<open>R\<close> at most in the \<^verbatim>\<open>totalItems\<close> of successful
  responses to requests for pages other than 1) changes nothing in what the call does.
\<close>

theorem fetchReportData_totalItems_from_first_page:
  assumes "\<forall>rq. R' rq = R rq \<or>
                (page_of rq \<noteq> 1 \<and>
                 (\<exists>d d'. R rq = Inr d \<and> R' rq = Inr d' \<and> rd_items d' = rd_items d))"
  shows "fetchReportData R' L c u f ps s sent = fetchReportData R L c u f ps s sent \<and>
         (\<forall>r sent'. fetchReportData R L c u f ps s sent = Some (Inr r, sent') \<longrightarrow>
            totalItems r = totalItems_of (R (page_request c u f ps s 1)))"
proof -
  let ?rq = "page_request c u f ps s"
  from assms have first: "R' (?rq 1) = R (?rq 1)"
    by (metis page_of_page_request)
  show ?thesis
  proof (cases "R (?rq 1)")
    case (Inl e)
    with first have "R' (?rq 1) = Inl e" by simp
    from fetchReportData_first_rejected [where R = R' and L = L and sent = sent, OF this]
      fetchReportData_first_rejected [where R = R and L = L and sent = sent, OF Inl]
    show ?thesis by simp
  next
    case (Inr d)
    with first have Inr': "R' (?rq 1) = Inr d" by simp
    show ?thesis
    proof (cases "Math_ceil_div (totalItems_of (Inr d)) ps")
      case (Finite n)
      note eq = fetchReportData_Finite [where R = R and L = L and sent = sent, OF Inr Finite]
      note eq' = fetchReportData_Finite [where R = R' and L = L and sent = sent, OF Inr' Finite]
      have "apsnd (map_sum id items) (page_promise R' L c u f ps s p) =
            apsnd (map_sum id items) (page_promise R L c u f ps s p)" for p
        by (rule page_promise_items_cong [where rq = "?rq p"]) (use assms in blast, simp)
      then have "map (apsnd (map_sum id items)) (map (page_promise R' L c u f ps s) [2..n]) =
            map (apsnd (map_sum id items)) (map (page_promise R L c u f ps s) [2..n])"
        by simp
      then have "map_sum id (map items) (Promise_all (map (page_promise R' L c u f ps s) [2..n])) =
                 map_sum id (map items) (Promise_all (map (page_promise R L c u f ps s) [2..n]))"
        by (simp only: Promise_all_map_values [symmetric])
      then have "fetchReportData R' L c u f ps s sent = fetchReportData R L c u f ps s sent"
        unfolding eq eq'
        by (cases "Promise_all (map (page_promise R' L c u f ps s) [2..n])";
            cases "Promise_all (map (page_promise R L c u f ps s) [2..n])") simp_all
      moreover have "\<forall>r sent'. fetchReportData R L c u f ps s sent = Some (Inr r, sent') \<longrightarrow>
                       totalItems r = totalItems_of (R (?rq 1))"
        unfolding eq by (auto simp: Inr split: sum.splits)
      ultimately show ?thesis by simp
    next
      case PosInfinity
      from fetchReportData_not_Finite(1) [where R = R and L = L and sent = sent, OF Inr PosInfinity]
        fetchReportData_not_Finite(1) [where R = R' and L = L and sent = sent, OF Inr' PosInfinity]
      show ?thesis by simp
    next
      case NegInfinity
      then have *: "Math_ceil_div (totalItems_of (Inr d)) ps = NegInfinity \<or>
                    Math_ceil_div (totalItems_of (Inr d)) ps = NaN" by simp
      from fetchReportData_not_Finite(2) [where R = R and L = L and sent = sent, OF Inr *]
        fetchReportData_not_Finite(2) [where R = R' and L = L and sent = sent, OF Inr' *]
      show ?thesis by (simp add: Inr)
    next
      case NaN
      then have *: "Math_ceil_div (totalItems_of (Inr d)) ps = NegInfinity \<or>
                    Math_ceil_div (totalItems_of (Inr d)) ps = NaN" by simp
      from fetchReportData_not_Finite(2) [where R = R and L = L and sent = sent, OF Inr *]
        fetchReportData_not_Finite(2) [where R = R' and L = L and sent = sent, OF Inr' *]
      show ?thesis by (simp add: Inr)
    qed
  qed
qed

text \<open>
  An instance: the pages 2 and 3 report totals of 2000 and 3000.
\<close>

theorem fetchReportData_totalItems_from_first_page_witness:
  "fetchReportData drifting_total instant example_client ''r1'' None 100 None [] =
     fetchReportData report_250 instant example_client ''r1'' None 100 None [] \<and>
   (\<exists>r sent'. fetchReportData report_250 instant example_client ''r1'' None 100 None [] =
                 Some (Inr r, sent') \<and> totalItems r = 250)"
proof -
  have h: "\<forall>rq. drifting_total rq = report_250 rq \<or>
             (page_of rq \<noteq> 1 \<and>
              (\<exists>d d'. report_250 rq = Inr d \<and> drifting_total rq = Inr d' \<and>
                       rd_items d' = rd_items d))"
    by (simp add: drifting_total_def report_250_def)
  have ev: "fetchReportData report_250 instant example_client ''r1'' None 100 None [] =
          Some (Inr \<lparr>items = [JNum 1, JNum 2, JNum 3], totalItems = 250\<rparr>,
                map (page_request example_client ''r1'' None 100 None) [1, 2, 3])"
    by code_simp
  from fetchReportData_totalItems_from_first_page [OF h, of instant example_client "''r1''" None 100 None "[]"]
  show ?thesis by (simp add: ev)
qed

text \<open>
  C8. For a page size \<open>ps \<ge> 1\<close> the call returns, having sent at most
  \<open>max 1 \<lceil>T / ps\<rceil>\<close> requests, where \<open>T\<close> is the total reported by the first page. The
  bound on the page size is needed and nothing in the code checks it: with a page size of 0
  and a first page reporting a positive total, the loop over the pages never exits.
\<close>

theorem fetchReportData_terminates:
  "(1 \<le> ps \<longrightarrow>
      (\<exists>res issued.
         fetchReportData R L c u f ps s sent = Some (res, sent @ issued) \<and>
         int (length issued) \<le>
           max 1 \<lceil>real_of_int (totalItems_of (R (page_request c u f ps s 1))) / real_of_int ps\<rceil>)) \<and>
   (\<not> isl (R (page_request c u f 0 s 1)) \<and> 0 < totalItems_of (R (page_request c u f 0 s 1)) \<longrightarrow>
      fetchReportData R L c u f 0 s sent = None)"
proof (intro conjI impI)
  assume ps: "1 \<le> ps"
  let ?rq = "page_request c u f ps s"
  show "\<exists>res issued.
         fetchReportData R L c u f ps s sent = Some (res, sent @ issued) \<and>
         int (length issued) \<le> max 1 \<lceil>real_of_int (totalItems_of (R (?rq 1))) / real_of_int ps\<rceil>"
  proof (cases "R (?rq 1)")
    case (Inl e)
    from fetchReportData_first_rejected [where R = R and L = L and sent = sent, OF Inl]
    have "fetchReportData R L c u f ps s sent = Some (Inl e, sent @ [?rq 1])" .
    moreover have "int (length [?rq 1]) \<le> max 1 \<lceil>real_of_int (totalItems_of (R (?rq 1))) / real_of_int ps\<rceil>"
      by simp
    ultimately show ?thesis by blast
  next
    case (Inr d)
    define n where "n = \<lceil>real_of_int (totalItems_of (Inr d)) / real_of_int ps\<rceil>"
    from ps have fin: "Math_ceil_div (totalItems_of (Inr d)) ps = Finite n"
      unfolding n_def by (intro Math_ceil_div_real) simp
    have "\<exists>res. fetchReportData R L c u f ps s sent = Some (res, sent @ map ?rq [1..max 1 n])"
      using fetchReportData_Finite [where R = R and L = L and sent = sent, OF Inr fin]
      by (simp split: sum.splits)
    moreover have "int (length (map ?rq [1..max 1 n])) \<le> max 1 n" by simp
    ultimately show ?thesis unfolding n_def Inr by blast
  qed
next
  assume a: "\<not> isl (R (page_request c u f 0 s 1)) \<and> 0 < totalItems_of (R (page_request c u f 0 s 1))"
  then obtain d where d: "R (page_request c u f 0 s 1) = Inr d"
    by (cases "R (page_request c u f 0 s 1)") auto
  with a have "Math_ceil_div (totalItems_of (Inr d)) 0 = PosInfinity"
    by (simp add: Math_ceil_div_def)
  from fetchReportData_not_Finite(1) [where R = R and L = L and sent = sent, OF d this]
  show "fetchReportData R L c u f 0 s sent = None" .
qed

text \<open>
  An instance of both parts: the report of 250 items with page sizes 100 and 0.
\<close>

theorem fetchReportData_terminates_witness:
  "(\<exists>res issued.
      fetchReportData report_250 last_page_first example_client ''r1'' None 100 None [] =
        Some (res, issued) \<and> length issued \<le> 3) \<and>
   fetchReportData report_250 last_page_first example_client ''r1'' None 0 None [] = None"
proof -
  have t: "totalItems_of (report_250 rq) = 250" for rq
    by (simp add: report_250_def totalItems_of_def or_number_def)
  have i: "\<not> isl (report_250 rq)" for rq
    by (simp add: report_250_def)
  from fetchReportData_terminates [of 100 report_250 last_page_first example_client "''r1''" None None "[]"]
  show ?thesis by (simp add: t i)
qed

text \<open>
  C9. For a page size \<open>ps \<ge> 0\<close>: whenever the first page reports a total \<open>T \<le> ps\<close> (zero
  and negative totals included), the call sends no further request and returns the items
  of the first page as they are, together with the total as reported; only an absent total
  becomes 0.
\<close>

theorem fetchReportData_single_page:
  assumes "0 \<le> ps"
    and "R (page_request c u f ps s 1) = Inr d"
    and "totalItems_of (Inr d) \<le> ps"
  shows "fetchReportData R L c u f ps s sent =
           Some (Inr \<lparr>items = or_array (rd_items d) [],
                      totalItems = (case rd_totalItems d of None \<Rightarrow> 0 | Some n \<Rightarrow> n)\<rparr>,
                 sent @ [page_request c u f ps s 1])"
proof -
  have t: "totalItems_of (Inr d) = (case rd_totalItems d of None \<Rightarrow> 0 | Some n \<Rightarrow> n)"
    by (simp add: totalItems_of_def or_number_def split: option.splits)
  have i: "items_of (Inr d) = or_array (rd_items d) []"
    by (simp add: items_of_def)
  show ?thesis
  proof (cases "ps = 0")
    case True
    with assms(3) have "Math_ceil_div (totalItems_of (Inr d)) ps = NegInfinity \<or>
                        Math_ceil_div (totalItems_of (Inr d)) ps = NaN"
      by (simp add: Math_ceil_div_def)
    from fetchReportData_not_Finite(2) [where R = R and L = L and sent = sent, OF assms(2) this]
    show ?thesis by (simp add: t [symmetric] i)
  next
    case False
    with assms(1) have pos: "0 < ps" by simp
    define n where "n = \<lceil>real_of_int (totalItems_of (Inr d)) / real_of_int ps\<rceil>"
    from False have fin: "Math_ceil_div (totalItems_of (Inr d)) ps = Finite n"
      by (simp add: Math_ceil_div_real n_def)
    from assms(3) pos have "real_of_int (totalItems_of (Inr d)) / real_of_int ps \<le> 1"
      by simp
    then have n1: "n \<le> 1" by (simp add: n_def ceiling_le_iff)
    then have e: "[2..n] = []" "max 1 n = 1" by simp_all
    from fetchReportData_Finite [where R = R and L = L and sent = sent, OF assms(2) fin]
    show ?thesis by (simp add: e Promise_all_def t [symmetric] i)
  qed
qed

text \<open>
  An instance: one page of two items that reports a total of \<open>-5\<close>.
\<close>

theorem fetchReportData_single_page_witness:
  "fetchReportData negative_total instant example_client ''r1'' None 100 None [] =
     Some (Inr \<lparr>items = [JStr ''a'', JStr ''b''], totalItems = - 5\<rparr>,
           [page_request example_client ''r1'' None 100 None 1])"
proof -
  have r: "negative_total (page_request example_client ''r1'' None 100 None 1) =
             Inr \<lparr>rd_items = Some [JStr ''a'', JStr ''b''], rd_totalItems = Some (- 5)\<rparr>"
    by (simp add: negative_total_def)
  from fetchReportData_single_page [of 100 negative_total example_client "''r1''" None None _
      instant "[]", OF _ r]
  show ?thesis by (simp add: totalItems_of_def or_number_def or_array_def)
qed

section \<open>Properties of the query executor\<close>

text \<open>
  C6. For a successful response, \<^verbatim>\<open>fetchReportDataPage\<close> yields a record whose items are
  those of the payload, or the empty sequence when the payload has none, and whose total
  is that of the payload, or 0 when the payload has none.
\<close>

theorem fetchReportDataPage_normalises:
  assumes "R \<lparr>req_uri = uri c, req_authorization = authorization c,
              req_variables = \<lparr>uuid = u, filter' = f, pagination = pg, sorting = s\<rparr>\<rparr> = Inr d"
  shows "snd (fst (fetchReportDataPage R L c u f pg s sent)) =
           Inr \<lparr>items = (case rd_items d of None \<Rightarrow> [] | Some xs \<Rightarrow> xs),
                totalItems = (case rd_totalItems d of None \<Rightarrow> 0 | Some n \<Rightarrow> n)\<rparr>"
  using assms
  by (simp add: fetchReportDataPage_def client_query_def or_array_def or_number_def Let_def
      split: option.splits)

text \<open>
  An instance: a payload with neither field.
\<close>

theorem fetchReportDataPage_normalises_witness:
  "snd (fst (fetchReportDataPage bare_payload instant example_client ''r1'' None
               \<lparr>page = 1, pageSize = 100\<rparr> None [])) =
     Inr \<lparr>items = [], totalItems = 0\<rparr>"
proof -
  have r: "bare_payload rq = Inr \<lparr>rd_items = None, rd_totalItems = None\<rparr>" for rq
    by (simp add: bare_payload_def)
  from fetchReportDataPage_normalises [of bare_payload example_client "''r1''" None
      "\<lparr>page = 1, pageSize = 100\<rparr>" None _ instant "[]", OF r]
  show ?thesis by simp
qed

section \<open>Properties of the program\<close>

text \<open>
  The two guards the script has (index.ts, lines 17-21 and 165-170): if
  \<^verbatim>\<open>COSTLOCKER_API_TOKEN\<close> is unset or empty, or \<^verbatim>\<open>REPORT_UUID\<close> is unset or empty, the
  program writes to standard error and exits with code 1 without having sent any request.
\<close>

lemma program_guards_exit_early:
  assumes "\<not> truthy (COSTLOCKER_API_TOKEN e) \<or> \<not> truthy (REPORT_UUID e)"
  shows "\<exists>p. program e R L = Some p \<and> requests p = [] \<and> stderr p \<noteq> [] \<and> exit_code p = 1"
proof (cases "truthy (COSTLOCKER_API_TOKEN e)")
  case False
  then show ?thesis by (simp add: program_def)
next
  case True
  with assms have "\<not> truthy (REPORT_UUID e)" by simp
  with True show ?thesis by (simp add: program_def main_empty_uuid)
qed

text \<open>
  Both guards on concrete environments: one without the token, one with an empty report
  uuid.
\<close>

lemma program_guards_exit_early_instances:
  "program env_without_token refuses_missing_uri instant =
     Some \<lparr>requests = [], stdout = [],
           stderr = [Text ''Error: COSTLOCKER_API_TOKEN environment variable is required'',
                     Text ''Please create a .env file based on .env.example''],
           exit_code = 1\<rparr> \<and>
   program env_empty_uuid refuses_missing_uri instant =
     Some \<lparr>requests = [], stdout = [Text (''Fetching report data...'' @ [CHR 0x0A])],
           stderr = [Text ''Error: REPORT_UUID environment variable is required''],
           exit_code = 1\<rparr>"
  by code_simp

text \<open>
  C5. The claim asks that a missing \<^verbatim>\<open>COSTLOCKER_API_URL\<close>, like a missing token or report
  uuid, ends the program with a message on standard error and a non-zero exit code before
  any request is sent. The script has no guard for that variable. In the environment
  without it, on a transport that rejects a request without a \<^verbatim>\<open>uri\<close>, the program
  reaches \<^verbatim>\<open>fetchReportData\<close> and hands the query for page 1 to the transport, with
  \<^verbatim>\<open>uri\<close> undefined; only the rejection of that query makes it write the transport's
  error and exit with code 1. One request has been sent where the claim asks for none.
\<close>

theorem program_missing_url_sends_request:
  "COSTLOCKER_API_URL env_without_url = None \<and>
   program env_without_url refuses_missing_uri instant =
     Some \<lparr>requests =
             [\<lparr>req_uri = None, req_authorization = ''Static secret'',
               req_variables =
                 \<lparr>uuid = ''r1'', filter' = None,
                  pagination = \<lparr>page = 1, pageSize = 100\<rparr>, sorting = None\<rparr>\<rparr>],
           stdout = [Text (''Fetching report data...'' @ [CHR 0x0A]), UuidLine ''r1''],
           stderr = [FatalErrorLine ''Only absolute URLs are supported''],
           exit_code = 1\<rparr>"
  by code_simp

end
